theory Spec2Isabelle
  imports Complex_Main
begin

section \<open>JavaScript values\<close>

text \<open>
  The compiler of \<^verbatim>\<open>src/jsonToBatchUpdateRequest.ts\<close> reads a Google Docs document (a JSON
  value) and builds a list of request objects (JSON values again). A value is one of the
  JavaScript kinds below. An object is the list of its own properties in key order; numbers
  are never computed with, only copied and compared with \<^verbatim>\<open>0\<close>, so they are rationals.
\<close>

datatype jsval =
    JUndefined
  | JNull
  | JBool bool
  | JNum rat
  | JStr string
  | JArr "jsval list"
  | JObj "(string \<times> jsval) list"

type_synonym jsobj = "(string \<times> jsval) list"

text \<open>\<^verbatim>\<open>obj.k\<close> on an object: the value of the property, \<^verbatim>\<open>undefined\<close> when it has none.\<close>

definition getProp :: "jsobj \<Rightarrow> string \<Rightarrow> jsval" where
  "getProp obj k = (case map_of obj k of None \<Rightarrow> JUndefined | Some v \<Rightarrow> v)"

text \<open>\<^verbatim>\<open>delete obj.k\<close>: the object no longer has the property.\<close>

definition deleteProp :: "jsobj \<Rightarrow> string \<Rightarrow> jsobj" where
  "deleteProp obj k = filter (\<lambda>kv. fst kv \<noteq> k) obj"

text \<open>\<^verbatim>\<open>x?.k\<close>: \<^verbatim>\<open>undefined\<close> when \<^verbatim>\<open>x\<close> is \<^verbatim>\<open>undefined\<close> or \<^verbatim>\<open>null\<close> (and for the
  primitives, which have no such property), the property otherwise.\<close>

definition optChain :: "jsval \<Rightarrow> string \<Rightarrow> jsval" where
  "optChain x k = (case x of JObj obj \<Rightarrow> getProp obj k | _ \<Rightarrow> JUndefined)"

text \<open>\<^verbatim>\<open>a ?? b\<close>.\<close>

definition nullish :: "jsval \<Rightarrow> jsval \<Rightarrow> jsval" where
  "nullish a b = (if a = JUndefined \<or> a = JNull then b else a)"

text \<open>
  What a \<^verbatim>\<open>throw\<close> carries. The engine's own faults (a property read or a \<^verbatim>\<open>delete\<close> on
  \<^verbatim>\<open>undefined\<close>) are \<^verbatim>\<open>TypeError\<close>s; a collaborator may throw any \<^verbatim>\<open>Error\<close> or any other
  value. The \<^verbatim>\<open>catch\<close> block tells them apart with \<^verbatim>\<open>err instanceof Error\<close>.
\<close>

datatype thrown = TypeError | OtherError string | NonError jsval

fun instanceofError :: "thrown \<Rightarrow> bool" where
  "instanceofError TypeError = True"
| "instanceofError (OtherError msg) = True"
| "instanceofError (NonError v) = False"

section \<open>The document model\<close>

text \<open>
  The fields of \<^verbatim>\<open>docs_v1.Schema$Document\<close> that the compiler navigates. Every field is
  optional in the schema: \<open>None\<close> is an absent (or \<^verbatim>\<open>null\<close>) field. Payloads that are only
  handed to collaborators stay JSON values.
\<close>

record Schema_SectionBreak =
  sectionStyle :: "jsobj option"

record Schema_StructuralElement =
  startIndex :: jsval
  endIndex :: jsval
  "paragraph" :: jsval
  sectionBreak :: "Schema_SectionBreak option"
  table :: jsval

record Schema_Body =
  content :: "Schema_StructuralElement list option"

record Schema_Document =
  body :: "Schema_Body option"
  inlineObjects :: jsval
  documentStyle :: jsval

section \<open>Collaborators\<close>

text \<open>What \<^verbatim>\<open>handleParagraph\<close> returns.\<close>

record paragraphResult =
  insertParagraphElementRequests :: "jsval list"
  stylesForNewlineBeforeTable :: jsval

text \<open>
  The imported functions of \<^verbatim>\<open>pageUpdates\<close>, \<^verbatim>\<open>paragraphUpdates\<close>, \<^verbatim>\<open>tableUpdates\<close> and
  \<^verbatim>\<open>batchUpdateHelpers\<close> are parameters of the compiler. Each returns its value or throws.
  \<^verbatim>\<open>handleParagraph\<close> takes, in this order, \<^verbatim>\<open>paragraphElement\<close>, \<^verbatim>\<open>content\<close>,
  \<^verbatim>\<open>currentIndex\<close>, \<^verbatim>\<open>inlineObjects\<close>, \<^verbatim>\<open>paragraphStartIndex\<close>, \<^verbatim>\<open>paragraphEndIndex\<close> and
  \<^verbatim>\<open>isLastContentOfTableCell\<close>; \<^verbatim>\<open>handleTable\<close> takes \<^verbatim>\<open>tableElement\<close>, \<^verbatim>\<open>tableStartIndex\<close>,
  \<^verbatim>\<open>tableEndIndex\<close> and \<^verbatim>\<open>inlineObjects\<close>; \<^verbatim>\<open>changePageDimensions\<close> takes \<^verbatim>\<open>height\<close> and
  \<^verbatim>\<open>width\<close>; \<^verbatim>\<open>changePageMargins\<close> takes \<^verbatim>\<open>marginTop\<close>, \<^verbatim>\<open>marginBottom\<close>, \<^verbatim>\<open>marginRight\<close> and
  \<^verbatim>\<open>marginLeft\<close>.
\<close>

record collaborators =
  changePageDimensions :: "jsval \<Rightarrow> jsval \<Rightarrow> thrown + jsval"
  changePageMargins :: "jsval \<Rightarrow> jsval \<Rightarrow> jsval \<Rightarrow> jsval \<Rightarrow> thrown + jsval"
  changePageOrientation :: "jsval \<Rightarrow> thrown + jsval"
  handleParagraph ::
    "jsval \<Rightarrow> Schema_StructuralElement list \<Rightarrow> nat \<Rightarrow> jsval \<Rightarrow> jsval \<Rightarrow> jsval \<Rightarrow> bool
      \<Rightarrow> thrown + paragraphResult"
  handleTable :: "jsval \<Rightarrow> jsval \<Rightarrow> jsval \<Rightarrow> jsval \<Rightarrow> thrown + jsval list"
  findStructuralElementType :: "Schema_StructuralElement \<Rightarrow> thrown + jsval"

text \<open>
  Modelled from the spec: \<^verbatim>\<open>getStylingFieldMask\<close> of \<^verbatim>\<open>batchUpdateHelpers\<close> is not among the
  sources. The specification's field-mask deriver enumerates the top-level keys of the
  object whose value is not \<^verbatim>\<open>undefined\<close>, in the object's key order, and joins their names
  with commas; the empty object gives the empty string.
\<close>

definition maskFields :: "jsobj \<Rightarrow> string list" where
  "maskFields obj = map fst (filter (\<lambda>kv. snd kv \<noteq> JUndefined) obj)"

fun joinComma :: "string list \<Rightarrow> string" where
  "joinComma [] = []"
| "joinComma [k] = k"
| "joinComma (k # ks) = k @ '','' @ joinComma ks"

definition getStylingFieldMask :: "jsobj \<Rightarrow> jsval" where
  "getStylingFieldMask obj = JStr (joinComma (maskFields obj))"

section \<open>Section breaks\<close>

text \<open>
  \<^verbatim>\<open>handleSectionBreak\<close>. The local \<^verbatim>\<open>sectionBreakStyle\<close> is the very object that
  \<^verbatim>\<open>sectionBreakElement.sectionStyle\<close> refers to, so the \<^verbatim>\<open>delete\<close> changes the element:
  the function returns the element as it is afterwards together with the requests, and every
  later read of \<^verbatim>\<open>sectionBreakElement.sectionStyle\<close> is a read of the changed element.
  A property read on an absent element and a \<^verbatim>\<open>delete\<close> on an absent style throw.
\<close>

definition insertAtEndOfSegment :: jsval where
  "insertAtEndOfSegment =
     JObj [(''insertSectionBreak'',
            JObj [(''sectionType'', JStr ''CONTINUOUS''),
                  (''endOfSegmentLocation'', JObj [(''segmentId'', JStr '''')])])]"

definition insertAtLocation :: "jsval \<Rightarrow> jsval \<Rightarrow> jsval" where
  "insertAtLocation ty startIdx =
     JObj [(''insertSectionBreak'',
            JObj [(''sectionType'', ty),
                  (''location'', JObj [(''segmentId'', JStr ''''), (''index'', startIdx)])])]"

definition updateSectionStyleRequest :: "jsobj \<Rightarrow> jsval \<Rightarrow> jsval \<Rightarrow> jsval" where
  "updateSectionStyleRequest sectionBreakStyle startIdx endIdx =
     JObj [(''updateSectionStyle'',
            JObj [(''sectionStyle'', JObj sectionBreakStyle),
                  (''range'', JObj [(''startIndex'', startIdx), (''endIndex'', endIdx),
                                    (''segmentId'', JStr '''')]),
                  (''fields'', getStylingFieldMask sectionBreakStyle)])]"

definition handleSectionBreak ::
  "Schema_SectionBreak option \<Rightarrow> jsval \<Rightarrow> jsval
    \<Rightarrow> thrown + (Schema_SectionBreak \<times> jsval list)" where
  "handleSectionBreak sectionBreakElement sectionBreakStartIndex sectionBreakEndIndex =
     (let startIdx = nullish sectionBreakStartIndex (JNum 0);
          endIdx = sectionBreakEndIndex
      in case sectionBreakElement of
           None \<Rightarrow> Inl TypeError
         | Some element \<Rightarrow>
             (case sectionStyle element of
                None \<Rightarrow> Inl TypeError
              | Some style \<Rightarrow>
                  (let sectionBreakStyle = deleteProp style ''sectionType'';
                       element' = element\<lparr>sectionStyle := Some sectionBreakStyle\<rparr>;
                       updateSectionBreakRequest =
                         updateSectionStyleRequest sectionBreakStyle startIdx endIdx
                   in if startIdx = JNum 0
                      then Inr (element', [insertAtEndOfSegment, updateSectionBreakRequest])
                      else (case sectionStyle element' of
                              None \<Rightarrow> Inl TypeError
                            | Some style' \<Rightarrow>
                                Inr (element',
                                     [insertAtLocation
                                        (if getProp style' ''sectionType''
                                              = JStr ''SECTION_TYPE_UNSPECIFIED''
                                         then JStr ''CONTINUOUS''
                                         else getProp style' ''sectionType'')
                                        startIdx,
                                      updateSectionBreakRequest])))))"

section \<open>The compiler\<close>

definition shrinkOriginalNewLine :: "jsval list" where
  "shrinkOriginalNewLine =
     [JObj [(''updateTextStyle'',
             JObj [(''textStyle'',
                    JObj [(''fontSize'', JObj [(''magnitude'', JNum 1), (''unit'', JStr ''PT'')])]),
                   (''fields'', JStr ''fontSize''),
                   (''range'', JObj [(''startIndex'', JNum 1), (''endIndex'', JNum 2),
                                     (''segmentId'', JStr '''')])])],
      JObj [(''updateParagraphStyle'',
             JObj [(''paragraphStyle'',
                    JObj [(''lineSpacing'', JNum (6 / 100)),
                          (''spaceAbove'', JObj [(''magnitude'', JNum 0), (''unit'', JStr ''PT'')]),
                          (''spaceBelow'', JObj [(''magnitude'', JNum 0), (''unit'', JStr ''PT'')])]),
                   (''fields'', JStr ''lineSpacing,spaceAbove,spaceBelow''),
                   (''range'', JObj [(''startIndex'', JNum 1), (''endIndex'', JNum 2),
                                     (''segmentId'', JStr '''')])])]]"

text \<open>
  The variables the loop changes: the array \<^verbatim>\<open>content\<close> (its section breaks are changed in
  place), the list \<^verbatim>\<open>requests\<close> and the slot \<^verbatim>\<open>newLineStyleUpdatesForAfterTableInsertion\<close>.
\<close>

record loopState =
  elements :: "Schema_StructuralElement list"
  requests :: "jsval list"
  newLineStyleUpdatesForAfterTableInsertion :: jsval

text \<open>One pass through the body of the \<^verbatim>\<open>for\<close> loop, at index \<open>i\<close>: the new state, or the
  value thrown (nothing is changed before a throw).\<close>

definition loopBody :: "collaborators \<Rightarrow> jsval \<Rightarrow> nat \<Rightarrow> loopState \<Rightarrow> thrown + loopState" where
  "loopBody env inlineObjs i st =
     (let structuralElement = elements st ! i;
          startIdx = startIndex structuralElement;
          endIdx = endIndex structuralElement
      in case findStructuralElementType env structuralElement of
           Inl err \<Rightarrow> Inl err
         | Inr structuralElementType \<Rightarrow>
             if structuralElementType = JStr ''paragraph'' then
               (case handleParagraph env (paragraph structuralElement) (elements st) i
                       inlineObjs startIdx endIdx False of
                  Inl err \<Rightarrow> Inl err
                | Inr r \<Rightarrow>
                    Inr (st\<lparr>newLineStyleUpdatesForAfterTableInsertion :=
                               stylesForNewlineBeforeTable r,
                             requests := requests st @ insertParagraphElementRequests r\<rparr>))
             else if structuralElementType = JStr ''sectionBreak'' then
               (case handleSectionBreak (sectionBreak structuralElement) startIdx endIdx of
                  Inl err \<Rightarrow> Inl err
                | Inr (element', sectionBreakInsertionRequest) \<Rightarrow>
                    Inr (st\<lparr>elements :=
                               (elements st)[i := structuralElement\<lparr>sectionBreak := Some element'\<rparr>],
                             requests := requests st @ sectionBreakInsertionRequest\<rparr>))
             else if structuralElementType = JStr ''table'' then
               (case handleTable env (table structuralElement) startIdx endIdx inlineObjs of
                  Inl err \<Rightarrow> Inl err
                | Inr tableInsertionRequest \<Rightarrow>
                    if newLineStyleUpdatesForAfterTableInsertion st \<noteq> JNull
                    then Inr (st\<lparr>requests :=
                                    requests st @ tableInsertionRequest
                                      @ [newLineStyleUpdatesForAfterTableInsertion st],
                                  newLineStyleUpdatesForAfterTableInsertion := JNull\<rparr>)
                    else Inr (st\<lparr>requests := requests st @ tableInsertionRequest\<rparr>))
             else Inr st)"

text \<open>The \<^verbatim>\<open>for\<close> loop from index \<open>i\<close> on: the state at its exit and the value thrown, if
  a pass threw.\<close>

function forLoop ::
  "collaborators \<Rightarrow> jsval \<Rightarrow> nat \<Rightarrow> loopState \<Rightarrow> loopState \<times> thrown option" where
  "forLoop env inlineObjs i st =
     (if i < length (elements st)
      then (case loopBody env inlineObjs i st of
              Inl err \<Rightarrow> (st, Some err)
            | Inr st' \<Rightarrow> forLoop env inlineObjs (i + 1) st')
      else (st, None))"
  by pat_completeness auto
termination
proof (relation "measure (\<lambda>(env, inlineObjs, i, st). length (elements st) - i)")
  show "wf (measure (\<lambda>(env, inlineObjs, i, st). length (elements st) - i))"
    by simp
next
  fix env :: collaborators and inlineObjs :: jsval and i :: nat and st st' :: loopState
  assume less: "i < length (elements st)"
    and body: "loopBody env inlineObjs i st = Inr st'"
  from body have "length (elements st') = length (elements st)"
    by (auto simp: loopBody_def Let_def split: sum.splits if_splits prod.splits)
  with less
  show "((env, inlineObjs, i + 1, st'), (env, inlineObjs, i, st))
          \<in> measure (\<lambda>(env, inlineObjs, i, st). length (elements st) - i)"
    by simp
qed

text \<open>
  What a call leaves behind: the value returned (\<open>None\<close> is \<^verbatim>\<open>undefined\<close>, the function
  falling off its end after the \<^verbatim>\<open>catch\<close>), the values passed to \<^verbatim>\<open>console.error\<close>, and the
  document as it is after the call.
\<close>

record outcome =
  returned :: "jsval list option"
  logged :: "thrown list"
  docAfter :: Schema_Document

text \<open>The magnitudes and the flag read from \<^verbatim>\<open>docJSON.documentStyle\<close>.\<close>

definition widthMagnitude :: "Schema_Document \<Rightarrow> jsval" where
  "widthMagnitude docJSON =
     optChain (optChain (optChain (documentStyle docJSON) ''pageSize'') ''width'') ''magnitude''"

definition heightMagnitude :: "Schema_Document \<Rightarrow> jsval" where
  "heightMagnitude docJSON =
     optChain (optChain (optChain (documentStyle docJSON) ''pageSize'') ''height'') ''magnitude''"

definition marginTopMagnitude :: "Schema_Document \<Rightarrow> jsval" where
  "marginTopMagnitude docJSON = optChain (optChain (documentStyle docJSON) ''marginTop'') ''magnitude''"

definition marginBottomMagnitude :: "Schema_Document \<Rightarrow> jsval" where
  "marginBottomMagnitude docJSON =
     optChain (optChain (documentStyle docJSON) ''marginBottom'') ''magnitude''"

definition marginRightMagnitude :: "Schema_Document \<Rightarrow> jsval" where
  "marginRightMagnitude docJSON =
     optChain (optChain (documentStyle docJSON) ''marginRight'') ''magnitude''"

definition marginLeftMagnitude :: "Schema_Document \<Rightarrow> jsval" where
  "marginLeftMagnitude docJSON =
     optChain (optChain (documentStyle docJSON) ''marginLeft'') ''magnitude''"

definition flipPageOrientationFlag :: "Schema_Document \<Rightarrow> jsval" where
  "flipPageOrientationFlag docJSON = optChain (documentStyle docJSON) ''flipPageOrientation''"

text \<open>
  The \<^verbatim>\<open>try\<close> block: the document afterwards, and the requests or the value thrown. Reading
  \<^verbatim>\<open>content\<close> off an absent \<^verbatim>\<open>body\<close> throws at once; an absent \<^verbatim>\<open>content\<close> throws when the
  loop first asks for its length, after the three page requests have been built.
\<close>

definition tryBlock ::
  "collaborators \<Rightarrow> Schema_Document \<Rightarrow> Schema_Document \<times> (thrown + jsval list)" where
  "tryBlock env docJSON =
     (case body docJSON of
        None \<Rightarrow> (docJSON, Inl TypeError)
      | Some docBody \<Rightarrow>
          (case changePageDimensions env (heightMagnitude docJSON) (widthMagnitude docJSON) of
             Inl err \<Rightarrow> (docJSON, Inl err)
           | Inr changePageSizeReq \<Rightarrow>
               (case changePageMargins env (marginTopMagnitude docJSON)
                       (marginBottomMagnitude docJSON) (marginRightMagnitude docJSON)
                       (marginLeftMagnitude docJSON) of
                  Inl err \<Rightarrow> (docJSON, Inl err)
                | Inr changePageMarginsReq \<Rightarrow>
                    (case changePageOrientation env (flipPageOrientationFlag docJSON) of
                       Inl err \<Rightarrow> (docJSON, Inl err)
                     | Inr flipOrientationReq \<Rightarrow>
                         (case content docBody of
                            None \<Rightarrow> (docJSON, Inl TypeError)
                          | Some elems \<Rightarrow>
                              (case forLoop env (inlineObjects docJSON) 0
                                      \<lparr>elements = elems,
                                       requests = shrinkOriginalNewLine
                                         @ [changePageSizeReq, flipOrientationReq,
                                            changePageMarginsReq],
                                       newLineStyleUpdatesForAfterTableInsertion = JNull\<rparr> of
                                 (st, thrownValue) \<Rightarrow>
                                   (docJSON\<lparr>body :=
                                              Some (docBody\<lparr>content := Some (elements st)\<rparr>)\<rparr>,
                                    case thrownValue of
                                      Some err \<Rightarrow> Inl err
                                    | None \<Rightarrow> Inr (requests st))))))))"

definition jsonToBatchUpdateRequest :: "collaborators \<Rightarrow> Schema_Document \<Rightarrow> outcome" where
  "jsonToBatchUpdateRequest env docJSON =
     (case tryBlock env docJSON of
        (doc', Inr reqs) \<Rightarrow> \<lparr>returned = Some reqs, logged = [], docAfter = doc'\<rparr>
      | (doc', Inl err) \<Rightarrow>
          \<lparr>returned = None,
           logged = (if instanceofError err then [err] else []),
           docAfter = doc'\<rparr>)"

text \<open>
  The first \<open>k\<close> passes of the loop starting at index \<open>i\<close>, when none of them throws: the
  state in which the loop arrives at index \<open>i + k\<close>.
\<close>

fun passes :: "collaborators \<Rightarrow> jsval \<Rightarrow> nat \<Rightarrow> nat \<Rightarrow> loopState \<Rightarrow> thrown + loopState" where
  "passes env inlineObjs 0 i st = Inr st"
| "passes env inlineObjs (Suc k) i st =
     (case loopBody env inlineObjs i st of
        Inl err \<Rightarrow> Inl err
      | Inr st' \<Rightarrow> passes env inlineObjs k (i + 1) st')"

section \<open>Sample collaborators and documents\<close>

text \<open>
  Stand-ins for the collaborators, to run the compiler on concrete documents. The classifier
  names the first payload the element carries. The paragraph handler emits one
  \<^verbatim>\<open>insertText\<close> request and reports as the style of the newline before a table whatever the
  paragraph carries under \<^verbatim>\<open>styleBeforeTable\<close> (\<^verbatim>\<open>null\<close> when it carries nothing). The table
  handler emits one \<^verbatim>\<open>insertTable\<close> request.
\<close>

definition sampleClassifier :: "Schema_StructuralElement \<Rightarrow> thrown + jsval" where
  "sampleClassifier e =
     Inr (if paragraph e \<noteq> JUndefined then JStr ''paragraph''
          else if sectionBreak e \<noteq> None then JStr ''sectionBreak''
          else if table e \<noteq> JUndefined then JStr ''table''
          else JUndefined)"

definition newlineStyle :: jsval where
  "newlineStyle = JObj [(''updateParagraphStyle'', JStr ''newline before table'')]"

definition sampleParagraphHandler ::
  "jsval \<Rightarrow> Schema_StructuralElement list \<Rightarrow> nat \<Rightarrow> jsval \<Rightarrow> jsval \<Rightarrow> jsval \<Rightarrow> bool
    \<Rightarrow> thrown + paragraphResult" where
  "sampleParagraphHandler paragraphElement elems currentIndex inlineObjs startIdx endIdx lastInCell =
     Inr \<lparr>insertParagraphElementRequests =
            [JObj [(''insertText'', optChain paragraphElement ''text'')]],
          stylesForNewlineBeforeTable =
            nullish (optChain paragraphElement ''styleBeforeTable'') JNull\<rparr>"

definition sampleCollaborators :: collaborators where
  "sampleCollaborators =
     \<lparr>changePageDimensions =
        (\<lambda>h w. Inr (JObj [(''pageSize'', JObj [(''height'', h), (''width'', w)])])),
      changePageMargins =
        (\<lambda>t b r l. Inr (JObj [(''margins'', JArr [t, b, r, l])])),
      changePageOrientation = (\<lambda>flag. Inr (JObj [(''flipPageOrientation'', flag)])),
      handleParagraph = sampleParagraphHandler,
      handleTable = (\<lambda>t s e inlineObjs. Inr [JObj [(''insertTable'', t)]]),
      findStructuralElementType = sampleClassifier\<rparr>"


definition paragraphElem :: "string \<Rightarrow> jsval \<Rightarrow> rat \<Rightarrow> rat \<Rightarrow> Schema_StructuralElement" where
  "paragraphElem txt style s e =
     \<lparr>startIndex = JNum s, endIndex = JNum e,
      paragraph = JObj [(''text'', JStr txt), (''styleBeforeTable'', style)],
      sectionBreak = None, table = JUndefined\<rparr>"

definition tableElem :: "string \<Rightarrow> rat \<Rightarrow> rat \<Rightarrow> Schema_StructuralElement" where
  "tableElem txt s e =
     \<lparr>startIndex = JNum s, endIndex = JNum e, paragraph = JUndefined, sectionBreak = None,
      table = JStr txt\<rparr>"

definition sectionBreakElem :: "jsval \<Rightarrow> jsval \<Rightarrow> jsobj \<Rightarrow> Schema_StructuralElement" where
  "sectionBreakElem s e style =
     \<lparr>startIndex = s, endIndex = e, paragraph = JUndefined,
      sectionBreak = Some \<lparr>sectionStyle = Some style\<rparr>, table = JUndefined\<rparr>"

definition unknownElem :: Schema_StructuralElement where
  "unknownElem =
     \<lparr>startIndex = JNum 1, endIndex = JNum 2, paragraph = JUndefined, sectionBreak = None,
      table = JUndefined\<rparr>"

definition sampleDoc :: "Schema_StructuralElement list option \<Rightarrow> Schema_Document" where
  "sampleDoc elems =
     \<lparr>body = Some \<lparr>content = elems\<rparr>,
      inlineObjects = JUndefined,
      documentStyle =
        JObj [(''pageSize'',
               JObj [(''width'', JObj [(''magnitude'', JNum 612), (''unit'', JStr ''PT'')]),
                     (''height'', JObj [(''magnitude'', JNum 792), (''unit'', JStr ''PT'')])]),
              (''flipPageOrientation'', JBool True)]\<rparr>"

text \<open>The style of the section break that opens a document, as the Docs API reports it.\<close>

definition firstSectionStyle :: jsobj where
  "firstSectionStyle =
     [(''columnSeparatorStyle'', JStr ''NONE''),
      (''contentDirection'', JStr ''LEFT_TO_RIGHT''),
      (''sectionType'', JStr ''CONTINUOUS'')]"

section \<open>Properties\<close>

subsection \<open>Objects, single passes and the loop\<close>

declare forLoop.simps [simp del]

lemma map_of_deleteProp: "map_of (deleteProp obj k) k = None"
  by (induction obj) (auto simp: deleteProp_def)

lemma getProp_deleteProp: "getProp (deleteProp obj k) k = JUndefined"
  by (simp add: getProp_def map_of_deleteProp)

lemma maskFields_deleteProp: "k \<notin> set (maskFields (deleteProp obj k))"
  by (auto simp: maskFields_def deleteProp_def)

lemma handleSectionBreak_present:
  assumes "sectionStyle element = Some style"
  shows "handleSectionBreak (Some element) startIdx endIdx =
           Inr (element\<lparr>sectionStyle := Some (deleteProp style ''sectionType'')\<rparr>,
                [if nullish startIdx (JNum 0) = JNum 0 then insertAtEndOfSegment
                 else insertAtLocation JUndefined (nullish startIdx (JNum 0)),
                 updateSectionStyleRequest (deleteProp style ''sectionType'')
                   (nullish startIdx (JNum 0)) endIdx])"
  using assms by (simp add: handleSectionBreak_def Let_def getProp_deleteProp)

lemma loopBody_paragraph:
  assumes "findStructuralElementType env (elements st ! i) = Inr (JStr ''paragraph'')"
    and "handleParagraph env (paragraph (elements st ! i)) (elements st) i inlineObjs
           (startIndex (elements st ! i)) (endIndex (elements st ! i)) False = Inr r"
  shows "loopBody env inlineObjs i st =
           Inr (st\<lparr>newLineStyleUpdatesForAfterTableInsertion := stylesForNewlineBeforeTable r,
                   requests := requests st @ insertParagraphElementRequests r\<rparr>)"
  using assms by (simp add: loopBody_def Let_def)

lemma loopBody_table:
  assumes "findStructuralElementType env (elements st ! i) = Inr (JStr ''table'')"
    and "handleTable env (table (elements st ! i)) (startIndex (elements st ! i))
           (endIndex (elements st ! i)) inlineObjs = Inr tcmds"
  shows "loopBody env inlineObjs i st =
           Inr (st\<lparr>requests := requests st @ tcmds
                       @ (if newLineStyleUpdatesForAfterTableInsertion st \<noteq> JNull
                          then [newLineStyleUpdatesForAfterTableInsertion st] else []),
                   newLineStyleUpdatesForAfterTableInsertion := JNull\<rparr>)"
  using assms by (cases st) (simp add: loopBody_def Let_def)

lemma loopBody_skip:
  assumes "findStructuralElementType env (elements st ! i) = Inr kind"
    and "kind \<noteq> JStr ''paragraph''" "kind \<noteq> JStr ''sectionBreak''" "kind \<noteq> JStr ''table''"
  shows "loopBody env inlineObjs i st = Inr st"
  using assms by (simp add: loopBody_def Let_def)

lemma forLoop_step:
  assumes "i < length (elements st)" and "loopBody env inlineObjs i st = Inr st'"
  shows "forLoop env inlineObjs i st = forLoop env inlineObjs (i + 1) st'"
  using assms by (subst forLoop.simps) simp


lemma forLoop_done:
  assumes "length (elements st) \<le> i"
  shows "forLoop env inlineObjs i st = (st, None)"
  using assms by (subst forLoop.simps) simp

lemma loopBody_length:
  assumes "loopBody env inlineObjs i st = Inr st'"
  shows "length (elements st') = length (elements st)"
  using assms
  by (auto simp: loopBody_def Let_def split: sum.splits if_splits prod.splits)

lemma passes_forLoop:
  assumes "passes env inlineObjs k i st = Inr st'" and "i + k \<le> length (elements st)"
  shows "forLoop env inlineObjs i st = forLoop env inlineObjs (i + k) st'"
  using assms
proof (induction k arbitrary: i st)
  case 0
  then show ?case by simp
next
  case (Suc k)
  from Suc.prems(1) obtain st1 where body: "loopBody env inlineObjs i st = Inr st1"
    and rest: "passes env inlineObjs k (i + 1) st1 = Inr st'"
    by (auto split: sum.splits)
  have len: "length (elements st1) = length (elements st)"
    using body by (rule loopBody_length)
  from Suc.prems(2) have "i < length (elements st)" by simp
  then have "forLoop env inlineObjs i st = forLoop env inlineObjs (i + 1) st1"
    using body by (rule forLoop_step)
  also have "\<dots> = forLoop env inlineObjs (i + 1 + k) st'"
    using rest Suc.prems(2) len by (intro Suc.IH) simp_all
  finally show ?case by simp
qed



lemma tryBlock_loop:
  assumes "body docJSON = Some docBody" and "content docBody = Some elems"
    and "changePageDimensions env (heightMagnitude docJSON) (widthMagnitude docJSON)
           = Inr pageSizeReq"
    and "changePageMargins env (marginTopMagnitude docJSON) (marginBottomMagnitude docJSON)
           (marginRightMagnitude docJSON) (marginLeftMagnitude docJSON) = Inr marginsReq"
    and "changePageOrientation env (flipPageOrientationFlag docJSON) = Inr orientationReq"
    and "forLoop env (inlineObjects docJSON) 0
           \<lparr>elements = elems,
            requests = shrinkOriginalNewLine @ [pageSizeReq, orientationReq, marginsReq],
            newLineStyleUpdatesForAfterTableInsertion = JNull\<rparr> = (st, thrownValue)"
  shows "tryBlock env docJSON =
           (docJSON\<lparr>body := Some (docBody\<lparr>content := Some (elements st)\<rparr>)\<rparr>,
            case thrownValue of Some err \<Rightarrow> Inl err | None \<Rightarrow> Inr (requests st))"
  using assms by (simp add: tryBlock_def)

lemma passes_length:
  assumes "passes env inlineObjs k i st = Inr st'"
  shows "length (elements st') = length (elements st)"
  using assms
proof (induction k arbitrary: i st)
  case 0
  then show ?case by simp
next
  case (Suc k)
  from Suc.prems obtain st1 where body: "loopBody env inlineObjs i st = Inr st1"
    and rest: "passes env inlineObjs k (i + 1) st1 = Inr st'"
    by (auto split: sum.splits)
  from Suc.IH[OF rest] loopBody_length[OF body] show ?case by simp
qed

lemma jsonToBatchUpdateRequest_loop:
  assumes "body docJSON = Some docBody" and "content docBody = Some elems"
    and "changePageDimensions env (heightMagnitude docJSON) (widthMagnitude docJSON)
           = Inr pageSizeReq"
    and "changePageMargins env (marginTopMagnitude docJSON) (marginBottomMagnitude docJSON)
           (marginRightMagnitude docJSON) (marginLeftMagnitude docJSON) = Inr marginsReq"
    and "changePageOrientation env (flipPageOrientationFlag docJSON) = Inr orientationReq"
    and "forLoop env (inlineObjects docJSON) 0
           \<lparr>elements = elems,
            requests = shrinkOriginalNewLine @ [pageSizeReq, orientationReq, marginsReq],
            newLineStyleUpdatesForAfterTableInsertion = JNull\<rparr> = (st, None)"
  shows "jsonToBatchUpdateRequest env docJSON =
           \<lparr>returned = Some (requests st), logged = [],
            docAfter = docJSON\<lparr>body := Some (docBody\<lparr>content := Some (elements st)\<rparr>)\<rparr>\<rparr>"
  using tryBlock_loop[OF assms] by (simp add: jsonToBatchUpdateRequest_def)

lemma loopBody_slot_irrelevant:
  assumes "findStructuralElementType env (elements st ! i) \<noteq> Inr (JStr ''paragraph'')"
    and "findStructuralElementType env (elements st ! i) \<noteq> Inr (JStr ''table'')"
  shows "loopBody env inlineObjs i (st\<lparr>newLineStyleUpdatesForAfterTableInsertion := s\<rparr>)
           = (case loopBody env inlineObjs i st of
                Inl err \<Rightarrow> Inl err
              | Inr st' \<Rightarrow> Inr (st'\<lparr>newLineStyleUpdatesForAfterTableInsertion := s\<rparr>))"
  using assms
  by (auto simp: loopBody_def Let_def split: sum.splits prod.splits)

lemma loopBody_elements_other:
  assumes "loopBody env inlineObjs i st = Inr st'" and "j \<noteq> i"
  shows "elements st' ! j = elements st ! j"
  using assms
  by (auto simp: loopBody_def Let_def split: sum.splits if_splits prod.splits)

lemma passes_slot_irrelevant:
  assumes "\<forall>j. i \<le> j \<and> j < i + k \<longrightarrow>
             findStructuralElementType env (elements st ! j) \<noteq> Inr (JStr ''paragraph'')
           \<and> findStructuralElementType env (elements st ! j) \<noteq> Inr (JStr ''table'')"
  shows "passes env inlineObjs k i (st\<lparr>newLineStyleUpdatesForAfterTableInsertion := s\<rparr>)
           = (case passes env inlineObjs k i st of
                Inl err \<Rightarrow> Inl err
              | Inr st' \<Rightarrow> Inr (st'\<lparr>newLineStyleUpdatesForAfterTableInsertion := s\<rparr>))"
  using assms
proof (induction k arbitrary: i st)
  case 0
  then show ?case by simp
next
  case (Suc k)
  from Suc.prems have here:
    "findStructuralElementType env (elements st ! i) \<noteq> Inr (JStr ''paragraph'')"
    "findStructuralElementType env (elements st ! i) \<noteq> Inr (JStr ''table'')"
    by simp_all
  note body = loopBody_slot_irrelevant[OF here, of inlineObjs s]
  show ?case
  proof (cases "loopBody env inlineObjs i st")
    case (Inl err)
    with body show ?thesis by simp
  next
    case (Inr st1)
    have later: "\<forall>j. i + 1 \<le> j \<and> j < i + 1 + k \<longrightarrow>
        findStructuralElementType env (elements st1 ! j) \<noteq> Inr (JStr ''paragraph'')
      \<and> findStructuralElementType env (elements st1 ! j) \<noteq> Inr (JStr ''table'')"
    proof (intro allI impI)
      fix j
      assume j: "i + 1 \<le> j \<and> j < i + 1 + k"
      then have "elements st1 ! j = elements st ! j"
        using loopBody_elements_other[OF Inr, of j] by simp
      with Suc.prems j show
        "findStructuralElementType env (elements st1 ! j) \<noteq> Inr (JStr ''paragraph'')
       \<and> findStructuralElementType env (elements st1 ! j) \<noteq> Inr (JStr ''table'')"
        by simp
    qed
    from Suc.IH[OF later] body Inr show ?thesis by simp
  qed
qed

lemma nth_in_drop:
  assumes "n \<le> j" and "j < length xs"
  shows "xs ! j \<in> set (drop n xs)"
proof -
  from assms have "drop n xs ! (j - n) = xs ! j"
    by simp
  moreover from assms have "j - n < length (drop n xs)"
    by simp
  ultimately show ?thesis
    by (metis nth_mem)
qed

subsection \<open>Section breaks\<close>

text \<open>
  C1. For a section break with a non-zero start index whose style carries
  \<^verbatim>\<open>sectionType = "SECTION_TYPE_UNSPECIFIED"\<close>, the inserted break should have the type
  \<^verbatim>\<open>"CONTINUOUS"\<close>. The code compares the type after it has deleted it from the very object it
  reads: at start index 5 the emitted \<^verbatim>\<open>insertSectionBreak\<close> carries \<^verbatim>\<open>sectionType: undefined\<close>,
  not \<^verbatim>\<open>"CONTINUOUS"\<close>.
\<close>

theorem unspecified_type_not_normalized:
  "handleSectionBreak
     (Some \<lparr>sectionStyle = Some [(''sectionType'', JStr ''SECTION_TYPE_UNSPECIFIED''),
                                 (''contentDirection'', JStr ''LEFT_TO_RIGHT'')]\<rparr>)
     (JNum 5) (JNum 6)
   = Inr (\<lparr>sectionStyle = Some [(''contentDirection'', JStr ''LEFT_TO_RIGHT'')]\<rparr>,
          [JObj [(''insertSectionBreak'',
                  JObj [(''sectionType'', JUndefined),
                        (''location'', JObj [(''segmentId'', JStr ''''), (''index'', JNum 5)])])],
           updateSectionStyleRequest [(''contentDirection'', JStr ''LEFT_TO_RIGHT'')]
             (JNum 5) (JNum 6)])"
  by (simp add: handleSectionBreak_def Let_def nullish_def deleteProp_def getProp_def
      insertAtLocation_def)

text \<open>
  C2. Compilation should leave the source document as it was. On a document that opens with
  the usual section break, the document after the call has lost \<^verbatim>\<open>sectionType\<close> from that
  break's \<^verbatim>\<open>sectionStyle\<close>: it differs from the document passed in.
\<close>

theorem source_section_style_changed:
  "docAfter (jsonToBatchUpdateRequest sampleCollaborators
       (sampleDoc (Some [sectionBreakElem JUndefined (JNum 1) firstSectionStyle])))
     = sampleDoc (Some [sectionBreakElem JUndefined (JNum 1)
                          [(''columnSeparatorStyle'', JStr ''NONE''),
                           (''contentDirection'', JStr ''LEFT_TO_RIGHT'')]])
   \<and> docAfter (jsonToBatchUpdateRequest sampleCollaborators
       (sampleDoc (Some [sectionBreakElem JUndefined (JNum 1) firstSectionStyle])))
     \<noteq> sampleDoc (Some [sectionBreakElem JUndefined (JNum 1) firstSectionStyle])"
  by (simp add: jsonToBatchUpdateRequest_def tryBlock_def sampleDoc_def sampleCollaborators_def
      sectionBreakElem_def firstSectionStyle_def forLoop.simps loopBody_def Let_def
      sampleClassifier_def handleSectionBreak_def nullish_def deleteProp_def)

text \<open>
  C4. For a section break that carries a style and has no start index (\<^verbatim>\<open>undefined\<close> or
  \<^verbatim>\<open>null\<close>), \<^verbatim>\<open>handleSectionBreak\<close> takes the start index to be 0 and returns exactly two
  requests: an \<^verbatim>\<open>insertSectionBreak\<close> of type \<^verbatim>\<open>"CONTINUOUS"\<close> at the end of the root segment,
  then an \<^verbatim>\<open>updateSectionStyle\<close> over the range from 0 to the end index, whose field mask is
  derived from the style without \<^verbatim>\<open>sectionType\<close> and so never names \<^verbatim>\<open>sectionType\<close>.
\<close>

theorem first_section_break_bootstrap:
  assumes "sectionStyle element = Some style"
    and "startIdx = JUndefined \<or> startIdx = JNull"
  shows "handleSectionBreak (Some element) startIdx endIdx =
           Inr (element\<lparr>sectionStyle := Some (deleteProp style ''sectionType'')\<rparr>,
                [JObj [(''insertSectionBreak'',
                        JObj [(''sectionType'', JStr ''CONTINUOUS''),
                              (''endOfSegmentLocation'', JObj [(''segmentId'', JStr '''')])])],
                 JObj [(''updateSectionStyle'',
                        JObj [(''sectionStyle'', JObj (deleteProp style ''sectionType'')),
                              (''range'', JObj [(''startIndex'', JNum 0), (''endIndex'', endIdx),
                                                (''segmentId'', JStr '''')]),
                              (''fields'',
                               JStr (joinComma (maskFields (deleteProp style ''sectionType''))))])]])
         \<and> ''sectionType'' \<notin> set (maskFields (deleteProp style ''sectionType''))"
  using assms
  by (auto simp: handleSectionBreak_present nullish_def insertAtEndOfSegment_def
      updateSectionStyleRequest_def getStylingFieldMask_def maskFields_deleteProp)

text \<open>
  The section break that opens a document: no start index, end index 1.
\<close>

theorem first_section_break_bootstrap_witness:
  "handleSectionBreak (Some \<lparr>sectionStyle = Some firstSectionStyle\<rparr>) JUndefined (JNum 1) =
     Inr (\<lparr>sectionStyle = Some [(''columnSeparatorStyle'', JStr ''NONE''),
                                (''contentDirection'', JStr ''LEFT_TO_RIGHT'')]\<rparr>,
          [JObj [(''insertSectionBreak'',
                  JObj [(''sectionType'', JStr ''CONTINUOUS''),
                        (''endOfSegmentLocation'', JObj [(''segmentId'', JStr '''')])])],
           JObj [(''updateSectionStyle'',
                  JObj [(''sectionStyle'', JObj [(''columnSeparatorStyle'', JStr ''NONE''),
                                                 (''contentDirection'', JStr ''LEFT_TO_RIGHT'')]),
                        (''range'', JObj [(''startIndex'', JNum 0), (''endIndex'', JNum 1),
                                          (''segmentId'', JStr '''')]),
                        (''fields'', JStr ''columnSeparatorStyle,contentDirection'')])]])"
  using first_section_break_bootstrap
          [of "\<lparr>sectionStyle = Some firstSectionStyle\<rparr>" firstSectionStyle JUndefined "JNum 1"]
  by (simp add: firstSectionStyle_def deleteProp_def maskFields_def)

subsection \<open>The fault boundary\<close>




subsection \<open>The fixed prefix\<close>



subsection \<open>The pending newline style\<close>

text \<open>
  C3. For the sequence of a paragraph and a table, where the paragraph handler reports a
  newline style other than \<^verbatim>\<open>null\<close>: the loop ends with the requests of the paragraph, then
  all requests of the table, then the reported newline style, and with the slot \<^verbatim>\<open>null\<close>
  again; the call returns that list after the five fixed requests.
\<close>

theorem pending_style_follows_table:
  assumes doc: "body docJSON = Some docBody" "content docBody = Some [p, t]"
    and page:
      "changePageDimensions env (heightMagnitude docJSON) (widthMagnitude docJSON)
         = Inr pageSizeReq"
      "changePageMargins env (marginTopMagnitude docJSON) (marginBottomMagnitude docJSON)
         (marginRightMagnitude docJSON) (marginLeftMagnitude docJSON) = Inr marginsReq"
      "changePageOrientation env (flipPageOrientationFlag docJSON) = Inr orientationReq"
    and kinds: "findStructuralElementType env p = Inr (JStr ''paragraph'')"
      "findStructuralElementType env t = Inr (JStr ''table'')"
    and para: "handleParagraph env (paragraph p) [p, t] 0 (inlineObjects docJSON)
                 (startIndex p) (endIndex p) False
               = Inr \<lparr>insertParagraphElementRequests = pcmds,
                      stylesForNewlineBeforeTable = pending\<rparr>"
    and pending: "pending \<noteq> JNull"
    and tbl: "handleTable env (table t) (startIndex t) (endIndex t) (inlineObjects docJSON)
                = Inr tcmds"
  shows "forLoop env (inlineObjects docJSON) 0
           \<lparr>elements = [p, t],
            requests = shrinkOriginalNewLine @ [pageSizeReq, orientationReq, marginsReq],
            newLineStyleUpdatesForAfterTableInsertion = JNull\<rparr>
         = (\<lparr>elements = [p, t],
             requests = shrinkOriginalNewLine @ [pageSizeReq, orientationReq, marginsReq]
                          @ pcmds @ tcmds @ [pending],
             newLineStyleUpdatesForAfterTableInsertion = JNull\<rparr>, None)
       \<and> returned (jsonToBatchUpdateRequest env docJSON)
         = Some (shrinkOriginalNewLine @ [pageSizeReq, orientationReq, marginsReq]
                   @ pcmds @ tcmds @ [pending])"
proof -
  let ?rs = "shrinkOriginalNewLine @ [pageSizeReq, orientationReq, marginsReq]"
  let ?s0 = "\<lparr>elements = [p, t], requests = ?rs,
              newLineStyleUpdatesForAfterTableInsertion = JNull\<rparr>"
  let ?s1 = "\<lparr>elements = [p, t], requests = ?rs @ pcmds,
              newLineStyleUpdatesForAfterTableInsertion = pending\<rparr>"
  let ?s2 = "\<lparr>elements = [p, t], requests = ?rs @ pcmds @ tcmds @ [pending],
              newLineStyleUpdatesForAfterTableInsertion = JNull\<rparr>"
  have b0: "loopBody env (inlineObjects docJSON) 0 ?s0 = Inr ?s1"
    using kinds(1) para by (simp add: loopBody_paragraph)
  have b1: "loopBody env (inlineObjects docJSON) 1 ?s1 = Inr ?s2"
    using kinds(2) tbl pending by (simp add: loopBody_table)
  have l0: "0 < length (elements ?s0)" and l1: "1 < length (elements ?s1)"
    and l2: "length (elements ?s2) \<le> 1 + 1"
    by simp_all
  have "forLoop env (inlineObjects docJSON) 0 ?s0 = forLoop env (inlineObjects docJSON) (0 + 1) ?s1"
    using l0 b0 by (rule forLoop_step)
  also have "\<dots> = forLoop env (inlineObjects docJSON) (1 + 1) ?s2"
    using forLoop_step[OF l1 b1] by simp
  also have "\<dots> = (?s2, None)"
    using l2 by (rule forLoop_done)
  finally have loop: "forLoop env (inlineObjects docJSON) 0 ?s0 = (?s2, None)" .
  from jsonToBatchUpdateRequest_loop[OF doc page loop] loop show ?thesis by simp
qed

text \<open>
  A paragraph carrying a newline style, followed by a table.
\<close>

theorem pending_style_follows_table_witness:
  "newlineStyle \<noteq> JNull
   \<and> returned (jsonToBatchUpdateRequest sampleCollaborators
        (sampleDoc (Some [paragraphElem ''a'' newlineStyle 1 2, tableElem ''t'' 2 9])))
     = Some (shrinkOriginalNewLine
             @ [JObj [(''pageSize'', JObj [(''height'', JNum 792), (''width'', JNum 612)])],
                JObj [(''flipPageOrientation'', JBool True)],
                JObj [(''margins'', JArr [JUndefined, JUndefined, JUndefined, JUndefined])]]
             @ [JObj [(''insertText'', JStr ''a'')]]
             @ [JObj [(''insertTable'', JStr ''t'')]]
             @ [newlineStyle])"
  using pending_style_follows_table
          [of "sampleDoc (Some [paragraphElem ''a'' newlineStyle 1 2, tableElem ''t'' 2 9])"
              "\<lparr>content = Some [paragraphElem ''a'' newlineStyle 1 2, tableElem ''t'' 2 9]\<rparr>"
              "paragraphElem ''a'' newlineStyle 1 2" "tableElem ''t'' 2 9" sampleCollaborators
              "JObj [(''pageSize'', JObj [(''height'', JNum 792), (''width'', JNum 612)])]"
              "JObj [(''margins'', JArr [JUndefined, JUndefined, JUndefined, JUndefined])]"
              "JObj [(''flipPageOrientation'', JBool True)]"
              "[JObj [(''insertText'', JStr ''a'')]]" newlineStyle
              "[JObj [(''insertTable'', JStr ''t'')]]"]
  by (simp add: sampleCollaborators_def sampleDoc_def sampleClassifier_def
      sampleParagraphHandler_def paragraphElem_def tableElem_def newlineStyle_def
      heightMagnitude_def widthMagnitude_def marginTopMagnitude_def
      marginBottomMagnitude_def marginRightMagnitude_def marginLeftMagnitude_def
      flipPageOrientationFlag_def optChain_def getProp_def nullish_def)

text \<open>
  C7. Two tables in a row, at the indices \<open>i\<close> and \<open>i + 1\<close>, from any state of the loop: the
  first table appends its requests and then the slot's content, if the slot holds one, and
  leaves the slot \<^verbatim>\<open>null\<close>; the second table appends its own requests and nothing else. So
  the slot's content is emitted at most once.
\<close>

theorem consecutive_tables_drain_once:
  assumes len: "i + 1 < length (elements st)"
    and kinds: "findStructuralElementType env (elements st ! i) = Inr (JStr ''table'')"
      "findStructuralElementType env (elements st ! (i + 1)) = Inr (JStr ''table'')"
    and first: "handleTable env (table (elements st ! i)) (startIndex (elements st ! i))
                  (endIndex (elements st ! i)) inlineObjs = Inr tcmds1"
    and second: "handleTable env (table (elements st ! (i + 1)))
                   (startIndex (elements st ! (i + 1))) (endIndex (elements st ! (i + 1)))
                   inlineObjs = Inr tcmds2"
  shows "loopBody env inlineObjs i st
           = Inr (st\<lparr>requests := requests st @ tcmds1
                         @ (if newLineStyleUpdatesForAfterTableInsertion st \<noteq> JNull
                            then [newLineStyleUpdatesForAfterTableInsertion st] else []),
                     newLineStyleUpdatesForAfterTableInsertion := JNull\<rparr>)
       \<and> loopBody env inlineObjs (i + 1)
             (st\<lparr>requests := requests st @ tcmds1
                     @ (if newLineStyleUpdatesForAfterTableInsertion st \<noteq> JNull
                        then [newLineStyleUpdatesForAfterTableInsertion st] else []),
                 newLineStyleUpdatesForAfterTableInsertion := JNull\<rparr>)
           = Inr (st\<lparr>requests := requests st @ tcmds1
                         @ (if newLineStyleUpdatesForAfterTableInsertion st \<noteq> JNull
                            then [newLineStyleUpdatesForAfterTableInsertion st] else [])
                         @ tcmds2,
                     newLineStyleUpdatesForAfterTableInsertion := JNull\<rparr>)
       \<and> forLoop env inlineObjs i st
           = forLoop env inlineObjs (i + 2)
               (st\<lparr>requests := requests st @ tcmds1
                       @ (if newLineStyleUpdatesForAfterTableInsertion st \<noteq> JNull
                          then [newLineStyleUpdatesForAfterTableInsertion st] else [])
                       @ tcmds2,
                   newLineStyleUpdatesForAfterTableInsertion := JNull\<rparr>)"
proof -
  let ?drained = "if newLineStyleUpdatesForAfterTableInsertion st \<noteq> JNull
                  then [newLineStyleUpdatesForAfterTableInsertion st] else []"
  let ?s1 = "st\<lparr>requests := requests st @ tcmds1 @ ?drained,
                newLineStyleUpdatesForAfterTableInsertion := JNull\<rparr>"
  let ?s2 = "st\<lparr>requests := requests st @ tcmds1 @ ?drained @ tcmds2,
                newLineStyleUpdatesForAfterTableInsertion := JNull\<rparr>"
  have b1: "loopBody env inlineObjs i st = Inr ?s1"
    using kinds(1) first by (rule loopBody_table)
  have "loopBody env inlineObjs (i + 1) ?s1
          = Inr (?s1\<lparr>requests := requests ?s1 @ tcmds2
                        @ (if newLineStyleUpdatesForAfterTableInsertion ?s1 \<noteq> JNull
                           then [newLineStyleUpdatesForAfterTableInsertion ?s1] else []),
                     newLineStyleUpdatesForAfterTableInsertion := JNull\<rparr>)"
    using kinds(2) second by (intro loopBody_table) simp_all
  then have b2: "loopBody env inlineObjs (i + 1) ?s1 = Inr ?s2"
    by simp
  have l1: "i < length (elements st)" and l2: "i + 1 < length (elements ?s1)"
    using len by simp_all
  have "forLoop env inlineObjs i st = forLoop env inlineObjs (i + 1) ?s1"
    using l1 b1 by (rule forLoop_step)
  also have "\<dots> = forLoop env inlineObjs (i + 1 + 1) ?s2"
    using l2 b2 by (rule forLoop_step)
  finally have "forLoop env inlineObjs i st = forLoop env inlineObjs (i + 2) ?s2"
    by (simp add: add.assoc)
  with b1 b2 show ?thesis by simp
qed

text \<open>
  A paragraph has filled the slot and two tables follow: the style is emitted once, after
  the first table.
\<close>

theorem consecutive_tables_drain_once_witness:
  "fst (forLoop sampleCollaborators JUndefined 1
     \<lparr>elements = [paragraphElem ''a'' newlineStyle 1 2, tableElem ''t'' 2 9, tableElem ''u'' 9 15],
      requests = [JObj [(''insertText'', JStr ''a'')]],
      newLineStyleUpdatesForAfterTableInsertion = newlineStyle\<rparr>)
   = \<lparr>elements = [paragraphElem ''a'' newlineStyle 1 2, tableElem ''t'' 2 9, tableElem ''u'' 9 15],
      requests = [JObj [(''insertText'', JStr ''a'')], JObj [(''insertTable'', JStr ''t'')],
                  newlineStyle, JObj [(''insertTable'', JStr ''u'')]],
      newLineStyleUpdatesForAfterTableInsertion = JNull\<rparr>"
  using consecutive_tables_drain_once
          [of 1 "\<lparr>elements = [paragraphElem ''a'' newlineStyle 1 2, tableElem ''t'' 2 9, tableElem ''u'' 9 15],
                  requests = [JObj [(''insertText'', JStr ''a'')]],
                  newLineStyleUpdatesForAfterTableInsertion = newlineStyle\<rparr>"
              sampleCollaborators JUndefined "[JObj [(''insertTable'', JStr ''t'')]]"
              "[JObj [(''insertTable'', JStr ''u'')]]"]
  by (simp add: sampleCollaborators_def sampleClassifier_def paragraphElem_def tableElem_def
      newlineStyle_def forLoop_done)

text \<open>
  C8. A structural element classified as anything but \<^verbatim>\<open>"paragraph"\<close>, \<^verbatim>\<open>"sectionBreak"\<close> or
  \<^verbatim>\<open>"table"\<close> leaves the state of the loop as it is (no request is appended, nothing is
  thrown), and the loop goes on with the next element.
\<close>

theorem unknown_kind_skipped:
  assumes "findStructuralElementType env (elements st ! i) = Inr kind"
    and "kind \<noteq> JStr ''paragraph''" and "kind \<noteq> JStr ''sectionBreak''"
    and "kind \<noteq> JStr ''table''"
  shows "loopBody env inlineObjs i st = Inr st
       \<and> (i < length (elements st)
            \<longrightarrow> forLoop env inlineObjs i st = forLoop env inlineObjs (i + 1) st)"
proof -
  have body: "loopBody env inlineObjs i st = Inr st"
    using assms by (rule loopBody_skip)
  then show ?thesis by (simp add: forLoop_step)
qed

text \<open>
  An element that carries no payload is classified as \<^verbatim>\<open>undefined\<close> by the sample classifier.
\<close>

theorem unknown_kind_skipped_witness:
  "loopBody sampleCollaborators JUndefined 0
     \<lparr>elements = [unknownElem, paragraphElem ''a'' JNull 2 3], requests = shrinkOriginalNewLine,
      newLineStyleUpdatesForAfterTableInsertion = newlineStyle\<rparr>
   = Inr \<lparr>elements = [unknownElem, paragraphElem ''a'' JNull 2 3], requests = shrinkOriginalNewLine,
          newLineStyleUpdatesForAfterTableInsertion = newlineStyle\<rparr>
   \<and> forLoop sampleCollaborators JUndefined 0
       \<lparr>elements = [unknownElem, paragraphElem ''a'' JNull 2 3], requests = shrinkOriginalNewLine,
        newLineStyleUpdatesForAfterTableInsertion = newlineStyle\<rparr>
     = forLoop sampleCollaborators JUndefined 1
       \<lparr>elements = [unknownElem, paragraphElem ''a'' JNull 2 3], requests = shrinkOriginalNewLine,
        newLineStyleUpdatesForAfterTableInsertion = newlineStyle\<rparr>"
  using unknown_kind_skipped
          [of sampleCollaborators
              "\<lparr>elements = [unknownElem, paragraphElem ''a'' JNull 2 3],
                requests = shrinkOriginalNewLine,
                newLineStyleUpdatesForAfterTableInsertion = newlineStyle\<rparr>"
              0 JUndefined JUndefined]
  by (simp add: sampleCollaborators_def sampleClassifier_def unknownElem_def)

text \<open>
  C9. When the last paragraph of the sequence is one whose handler reports a newline style
  other than \<^verbatim>\<open>null\<close> and no element after it is a table (or another paragraph), whatever the
  elements before it were and provided no pass throws: the loop ends with that style still in
  the slot, the call returns the collected requests and logs nothing. The style is not among
  what the passes after the paragraph appended: with \<^verbatim>\<open>null\<close> in the slot they end in the same
  state, slot apart.
\<close>

theorem pending_style_dropped_at_end:
  assumes doc: "body docJSON = Some docBody" "content docBody = Some elems"
    and page:
      "changePageDimensions env (heightMagnitude docJSON) (widthMagnitude docJSON)
         = Inr pageSizeReq"
      "changePageMargins env (marginTopMagnitude docJSON) (marginBottomMagnitude docJSON)
         (marginRightMagnitude docJSON) (marginLeftMagnitude docJSON) = Inr marginsReq"
      "changePageOrientation env (flipPageOrientationFlag docJSON) = Inr orientationReq"
    and reach: "passes env (inlineObjects docJSON) i 0
                  \<lparr>elements = elems,
                   requests = shrinkOriginalNewLine @ [pageSizeReq, orientationReq, marginsReq],
                   newLineStyleUpdatesForAfterTableInsertion = JNull\<rparr> = Inr st"
    and kind: "findStructuralElementType env (elements st ! i) = Inr (JStr ''paragraph'')"
    and para: "handleParagraph env (paragraph (elements st ! i)) (elements st) i
                 (inlineObjects docJSON) (startIndex (elements st ! i))
                 (endIndex (elements st ! i)) False
               = Inr \<lparr>insertParagraphElementRequests = pcmds,
                      stylesForNewlineBeforeTable = pending\<rparr>"
    and pending: "pending \<noteq> JNull"
    and rest: "passes env (inlineObjects docJSON) k (i + 1)
                 (st\<lparr>requests := requests st @ pcmds,
                     newLineStyleUpdatesForAfterTableInsertion := pending\<rparr>) = Inr st'"
    and ends: "i + 1 + k = length elems"
    and later: "\<forall>e \<in> set (drop (i + 1) (elements st)).
                  findStructuralElementType env e \<noteq> Inr (JStr ''paragraph'')
                \<and> findStructuralElementType env e \<noteq> Inr (JStr ''table'')"
  shows "forLoop env (inlineObjects docJSON) 0
           \<lparr>elements = elems,
            requests = shrinkOriginalNewLine @ [pageSizeReq, orientationReq, marginsReq],
            newLineStyleUpdatesForAfterTableInsertion = JNull\<rparr> = (st', None)
       \<and> newLineStyleUpdatesForAfterTableInsertion st' = pending
       \<and> returned (jsonToBatchUpdateRequest env docJSON) = Some (requests st')
       \<and> logged (jsonToBatchUpdateRequest env docJSON) = []
       \<and> passes env (inlineObjects docJSON) k (i + 1)
           (st\<lparr>requests := requests st @ pcmds,
               newLineStyleUpdatesForAfterTableInsertion := JNull\<rparr>)
         = Inr (st'\<lparr>newLineStyleUpdatesForAfterTableInsertion := JNull\<rparr>)"
proof -
  let ?io = "inlineObjects docJSON"
  let ?s0 = "\<lparr>elements = elems,
              requests = shrinkOriginalNewLine @ [pageSizeReq, orientationReq, marginsReq],
              newLineStyleUpdatesForAfterTableInsertion = JNull\<rparr>"
  let ?s1 = "st\<lparr>requests := requests st @ pcmds,
                newLineStyleUpdatesForAfterTableInsertion := pending\<rparr>"
  let ?n1 = "st\<lparr>requests := requests st @ pcmds,
                newLineStyleUpdatesForAfterTableInsertion := JNull\<rparr>"
  have len: "length (elements st) = length elems"
    using passes_length[OF reach] by simp
  have len1: "length (elements ?s1) = length elems"
    using len by simp
  have len': "length (elements st') = length elems"
    using passes_length[OF rest] len1 by simp
  have body: "loopBody env ?io i st = Inr ?s1"
    using loopBody_paragraph[OF kind para] by simp
  have b0: "0 + i \<le> length (elements ?s0)" and b1: "i < length (elements st)"
    and b2: "i + 1 + k \<le> length (elements ?s1)" and b3: "length (elements st') \<le> i + 1 + k"
    using ends len len1 len' by simp_all
  have "forLoop env ?io 0 ?s0 = forLoop env ?io (0 + i) st"
    using reach b0 by (rule passes_forLoop)
  also have "\<dots> = forLoop env ?io i st"
    by simp
  also have "\<dots> = forLoop env ?io (i + 1) ?s1"
    using b1 body by (rule forLoop_step)
  also have "\<dots> = forLoop env ?io (i + 1 + k) st'"
    using rest b2 by (rule passes_forLoop)
  also have "\<dots> = (st', None)"
    using b3 by (rule forLoop_done)
  finally have loop: "forLoop env ?io 0 ?s0 = (st', None)" .
  have trailing: "\<forall>j. i + 1 \<le> j \<and> j < i + 1 + k \<longrightarrow>
      findStructuralElementType env (elements ?n1 ! j) \<noteq> Inr (JStr ''paragraph'')
    \<and> findStructuralElementType env (elements ?n1 ! j) \<noteq> Inr (JStr ''table'')"
  proof (intro allI impI)
    fix j
    assume j: "i + 1 \<le> j \<and> j < i + 1 + k"
    with ends len have "elements st ! j \<in> set (drop (i + 1) (elements st))"
      by (intro nth_in_drop) simp_all
    with later show
      "findStructuralElementType env (elements ?n1 ! j) \<noteq> Inr (JStr ''paragraph'')
     \<and> findStructuralElementType env (elements ?n1 ! j) \<noteq> Inr (JStr ''table'')"
      by simp
  qed
  from passes_slot_irrelevant[OF trailing, of ?io pending] rest
  obtain n' where null_run: "passes env ?io k (i + 1) ?n1 = Inr n'"
    and st': "st' = n'\<lparr>newLineStyleUpdatesForAfterTableInsertion := pending\<rparr>"
    by (auto split: sum.splits)
  from st' have kept: "newLineStyleUpdatesForAfterTableInsertion st' = pending"
    by simp
  from st' have "st'\<lparr>newLineStyleUpdatesForAfterTableInsertion := JNull\<rparr>
                   = n'\<lparr>newLineStyleUpdatesForAfterTableInsertion := JNull\<rparr>"
    by simp
  moreover from passes_slot_irrelevant[OF trailing, of ?io JNull] null_run
  have "passes env ?io k (i + 1) ?n1
          = Inr (n'\<lparr>newLineStyleUpdatesForAfterTableInsertion := JNull\<rparr>)"
    by simp
  ultimately have as_if_null:
    "passes env ?io k (i + 1) ?n1
       = Inr (st'\<lparr>newLineStyleUpdatesForAfterTableInsertion := JNull\<rparr>)"
    by (rule ssubst)
  from jsonToBatchUpdateRequest_loop[OF doc page loop]
  have ret: "returned (jsonToBatchUpdateRequest env docJSON) = Some (requests st')"
    and nolog: "logged (jsonToBatchUpdateRequest env docJSON) = []"
    by simp_all
  from loop kept ret nolog as_if_null show ?thesis
    by (intro conjI)
qed

text \<open>
  An unclassified element, a paragraph that carries a newline style, and another
  unclassified element.
\<close>

theorem pending_style_dropped_at_end_witness:
  "newlineStyle \<noteq> JNull
   \<and> returned (jsonToBatchUpdateRequest sampleCollaborators
        (sampleDoc (Some [unknownElem, paragraphElem ''a'' newlineStyle 1 2, unknownElem])))
     = Some (shrinkOriginalNewLine
             @ [JObj [(''pageSize'', JObj [(''height'', JNum 792), (''width'', JNum 612)])],
                JObj [(''flipPageOrientation'', JBool True)],
                JObj [(''margins'', JArr [JUndefined, JUndefined, JUndefined, JUndefined])],
                JObj [(''insertText'', JStr ''a'')]])
   \<and> logged (jsonToBatchUpdateRequest sampleCollaborators
        (sampleDoc (Some [unknownElem, paragraphElem ''a'' newlineStyle 1 2, unknownElem]))) = []"
proof -
  let ?elems = "[unknownElem, paragraphElem ''a'' newlineStyle 1 2, unknownElem]"
  let ?d = "sampleDoc (Some ?elems)"
  let ?ps = "JObj [(''pageSize'', JObj [(''height'', JNum 792), (''width'', JNum 612)])]"
  let ?mg = "JObj [(''margins'', JArr [JUndefined, JUndefined, JUndefined, JUndefined])]"
  let ?or = "JObj [(''flipPageOrientation'', JBool True)]"
  let ?rs = "shrinkOriginalNewLine @ [?ps, ?or, ?mg]"
  let ?st = "\<lparr>elements = ?elems, requests = ?rs,
              newLineStyleUpdatesForAfterTableInsertion = JNull\<rparr>"
  let ?st' = "\<lparr>elements = ?elems, requests = ?rs @ [JObj [(''insertText'', JStr ''a'')]],
               newLineStyleUpdatesForAfterTableInsertion = newlineStyle\<rparr>"
  have doc: "body ?d = Some \<lparr>content = Some ?elems\<rparr>"
    "content \<lparr>content = Some ?elems\<rparr> = Some ?elems"
    by (simp_all add: sampleDoc_def)
  have page:
    "changePageDimensions sampleCollaborators (heightMagnitude ?d) (widthMagnitude ?d) = Inr ?ps"
    "changePageMargins sampleCollaborators (marginTopMagnitude ?d) (marginBottomMagnitude ?d)
       (marginRightMagnitude ?d) (marginLeftMagnitude ?d) = Inr ?mg"
    "changePageOrientation sampleCollaborators (flipPageOrientationFlag ?d) = Inr ?or"
    by (simp_all add: sampleCollaborators_def sampleDoc_def heightMagnitude_def
        widthMagnitude_def marginTopMagnitude_def marginBottomMagnitude_def
        marginRightMagnitude_def marginLeftMagnitude_def flipPageOrientationFlag_def
        optChain_def getProp_def)
  have io: "inlineObjects ?d = JUndefined"
    by (simp add: sampleDoc_def)
  have skip: "loopBody sampleCollaborators JUndefined j
                \<lparr>elements = ?elems, requests = rs,
                 newLineStyleUpdatesForAfterTableInsertion = slot\<rparr>
              = Inr \<lparr>elements = ?elems, requests = rs,
                     newLineStyleUpdatesForAfterTableInsertion = slot\<rparr>"
    if "j = 0 \<or> j = 2" for j rs slot
    using that
    by (auto simp: loopBody_def Let_def sampleCollaborators_def sampleClassifier_def
        unknownElem_def)
  have reach: "passes sampleCollaborators (inlineObjects ?d) (Suc 0) 0 ?st = Inr ?st"
    using skip[of 0 ?rs JNull] by (simp add: io)
  have kind: "findStructuralElementType sampleCollaborators (elements ?st ! Suc 0)
                = Inr (JStr ''paragraph'')"
    by (simp add: sampleCollaborators_def sampleClassifier_def paragraphElem_def)
  have para: "handleParagraph sampleCollaborators (paragraph (elements ?st ! Suc 0))
                (elements ?st) (Suc 0) (inlineObjects ?d) (startIndex (elements ?st ! Suc 0))
                (endIndex (elements ?st ! Suc 0)) False
              = Inr \<lparr>insertParagraphElementRequests = [JObj [(''insertText'', JStr ''a'')]],
                     stylesForNewlineBeforeTable = newlineStyle\<rparr>"
    by (simp add: sampleCollaborators_def sampleParagraphHandler_def paragraphElem_def
        optChain_def getProp_def nullish_def newlineStyle_def)
  have pending: "newlineStyle \<noteq> JNull"
    by (simp add: newlineStyle_def)
  have rest: "passes sampleCollaborators (inlineObjects ?d) (Suc 0) (Suc 0 + 1)
                (?st\<lparr>requests := requests ?st @ [JObj [(''insertText'', JStr ''a'')]],
                     newLineStyleUpdatesForAfterTableInsertion := newlineStyle\<rparr>) = Inr ?st'"
    using skip[of 2 "?rs @ [JObj [(''insertText'', JStr ''a'')]]" newlineStyle]
    by (simp add: io numeral_2_eq_2)
  have ends: "Suc 0 + 1 + Suc 0 = length ?elems"
    by simp
  have later: "\<forall>e \<in> set (drop (Suc 0 + 1) (elements ?st)).
                 findStructuralElementType sampleCollaborators e \<noteq> Inr (JStr ''paragraph'')
               \<and> findStructuralElementType sampleCollaborators e \<noteq> Inr (JStr ''table'')"
    by (simp add: sampleCollaborators_def sampleClassifier_def unknownElem_def)
  from pending_style_dropped_at_end[OF doc page reach kind para pending rest ends later]
  have "returned (jsonToBatchUpdateRequest sampleCollaborators ?d) = Some (requests ?st')"
    and "logged (jsonToBatchUpdateRequest sampleCollaborators ?d) = []"
    by blast+
  with pending show ?thesis
    by simp
qed

text \<open>
  C10. A paragraph overwrites the slot with what its handler reports, whatever the slot held
  and also when the handler reports \<^verbatim>\<open>null\<close>. So for two paragraphs and a table, where the
  first handler reports a newline style and the second reports \<^verbatim>\<open>null\<close>, the call returns the
  five fixed requests, the requests of the two paragraphs and those of the table: the first
  paragraph's newline style is not emitted.
\<close>

theorem paragraph_overwrites_pending_style:
  assumes doc: "body docJSON = Some docBody" "content docBody = Some [p1, p2, t]"
    and page:
      "changePageDimensions env (heightMagnitude docJSON) (widthMagnitude docJSON)
         = Inr pageSizeReq"
      "changePageMargins env (marginTopMagnitude docJSON) (marginBottomMagnitude docJSON)
         (marginRightMagnitude docJSON) (marginLeftMagnitude docJSON) = Inr marginsReq"
      "changePageOrientation env (flipPageOrientationFlag docJSON) = Inr orientationReq"
    and kinds: "findStructuralElementType env p1 = Inr (JStr ''paragraph'')"
      "findStructuralElementType env p2 = Inr (JStr ''paragraph'')"
      "findStructuralElementType env t = Inr (JStr ''table'')"
    and para1: "handleParagraph env (paragraph p1) [p1, p2, t] 0 (inlineObjects docJSON)
                  (startIndex p1) (endIndex p1) False
                = Inr \<lparr>insertParagraphElementRequests = pcmds1,
                       stylesForNewlineBeforeTable = pending1\<rparr>"
    and pending1: "pending1 \<noteq> JNull"
    and para2: "handleParagraph env (paragraph p2) [p1, p2, t] 1 (inlineObjects docJSON)
                  (startIndex p2) (endIndex p2) False
                = Inr \<lparr>insertParagraphElementRequests = pcmds2,
                       stylesForNewlineBeforeTable = JNull\<rparr>"
    and tbl: "handleTable env (table t) (startIndex t) (endIndex t) (inlineObjects docJSON)
                = Inr tcmds"
  shows "(\<forall>st i r.
            findStructuralElementType env (elements st ! i) = Inr (JStr ''paragraph'')
          \<and> handleParagraph env (paragraph (elements st ! i)) (elements st) i
                (inlineObjects docJSON) (startIndex (elements st ! i))
                (endIndex (elements st ! i)) False = Inr r
          \<longrightarrow> loopBody env (inlineObjects docJSON) i st
                = Inr (st\<lparr>requests := requests st @ insertParagraphElementRequests r,
                          newLineStyleUpdatesForAfterTableInsertion :=
                            stylesForNewlineBeforeTable r\<rparr>))
       \<and> returned (jsonToBatchUpdateRequest env docJSON)
         = Some (shrinkOriginalNewLine @ [pageSizeReq, orientationReq, marginsReq]
                   @ pcmds1 @ pcmds2 @ tcmds)"
proof -
  let ?io = "inlineObjects docJSON"
  let ?rs = "shrinkOriginalNewLine @ [pageSizeReq, orientationReq, marginsReq]"
  let ?s0 = "\<lparr>elements = [p1, p2, t], requests = ?rs,
              newLineStyleUpdatesForAfterTableInsertion = JNull\<rparr>"
  let ?s1 = "\<lparr>elements = [p1, p2, t], requests = ?rs @ pcmds1,
              newLineStyleUpdatesForAfterTableInsertion = pending1\<rparr>"
  let ?s2 = "\<lparr>elements = [p1, p2, t], requests = ?rs @ pcmds1 @ pcmds2,
              newLineStyleUpdatesForAfterTableInsertion = JNull\<rparr>"
  let ?s3 = "\<lparr>elements = [p1, p2, t], requests = ?rs @ pcmds1 @ pcmds2 @ tcmds,
              newLineStyleUpdatesForAfterTableInsertion = JNull\<rparr>"
  have first: "loopBody env ?io 0
                 \<lparr>elements = [p1, p2, t], requests = rs',
                  newLineStyleUpdatesForAfterTableInsertion = slot'\<rparr>
               = Inr \<lparr>elements = [p1, p2, t], requests = rs' @ pcmds1,
                      newLineStyleUpdatesForAfterTableInsertion = pending1\<rparr>" for rs' slot'
    using kinds(1) para1 by (simp add: loopBody_paragraph)
  have second: "loopBody env ?io 1
                  \<lparr>elements = [p1, p2, t], requests = rs',
                   newLineStyleUpdatesForAfterTableInsertion = slot'\<rparr>
                = Inr \<lparr>elements = [p1, p2, t], requests = rs' @ pcmds2,
                       newLineStyleUpdatesForAfterTableInsertion = JNull\<rparr>" for rs' slot'
    using kinds(2) para2 by (simp add: loopBody_paragraph)
  have third: "loopBody env ?io 2 ?s2 = Inr ?s3"
    using kinds(3) tbl by (simp add: loopBody_table)
  have l0: "0 < length (elements ?s0)" and l1: "0 + 1 < length (elements ?s1)"
    and l2: "0 + 1 + 1 < length (elements ?s2)" and l3: "length (elements ?s3) \<le> 0 + 1 + 1 + 1"
    by simp_all
  have b0: "loopBody env ?io 0 ?s0 = Inr ?s1"
    by (rule first)
  have b1: "loopBody env ?io (0 + 1) ?s1 = Inr ?s2"
    using second[of "?rs @ pcmds1" pending1] by simp
  have b2: "loopBody env ?io (0 + 1 + 1) ?s2 = Inr ?s3"
    using third by (simp add: numeral_2_eq_2)
  have "forLoop env ?io 0 ?s0 = forLoop env ?io (0 + 1) ?s1"
    using l0 b0 by (rule forLoop_step)
  also have "\<dots> = forLoop env ?io (0 + 1 + 1) ?s2"
    using l1 b1 by (rule forLoop_step)
  also have "\<dots> = forLoop env ?io (0 + 1 + 1 + 1) ?s3"
    using l2 b2 by (rule forLoop_step)
  also have "\<dots> = (?s3, None)"
    using l3 by (rule forLoop_done)
  finally have loop: "forLoop env ?io 0 ?s0 = (?s3, None)" .
  have overwrite: "\<forall>st i r.
      findStructuralElementType env (elements st ! i) = Inr (JStr ''paragraph'')
    \<and> handleParagraph env (paragraph (elements st ! i)) (elements st) i ?io
          (startIndex (elements st ! i)) (endIndex (elements st ! i)) False = Inr r
    \<longrightarrow> loopBody env ?io i st
          = Inr (st\<lparr>requests := requests st @ insertParagraphElementRequests r,
                    newLineStyleUpdatesForAfterTableInsertion :=
                      stylesForNewlineBeforeTable r\<rparr>)"
    by (simp add: loopBody_paragraph)
  from jsonToBatchUpdateRequest_loop[OF doc page loop]
  have "returned (jsonToBatchUpdateRequest env docJSON) = Some (requests ?s3)"
    by simp
  with overwrite show ?thesis
    by simp
qed

text \<open>
  Only the first of two paragraphs carries a newline style.
\<close>

theorem paragraph_overwrites_pending_style_witness:
  "newlineStyle \<noteq> JNull
   \<and> returned (jsonToBatchUpdateRequest sampleCollaborators
        (sampleDoc (Some [paragraphElem ''a'' newlineStyle 1 2, paragraphElem ''b'' JNull 2 3,
                          tableElem ''t'' 3 9])))
     = Some (shrinkOriginalNewLine
             @ [JObj [(''pageSize'', JObj [(''height'', JNum 792), (''width'', JNum 612)])],
                JObj [(''flipPageOrientation'', JBool True)],
                JObj [(''margins'', JArr [JUndefined, JUndefined, JUndefined, JUndefined])]]
             @ [JObj [(''insertText'', JStr ''a'')]]
             @ [JObj [(''insertText'', JStr ''b'')]]
             @ [JObj [(''insertTable'', JStr ''t'')]])"
  using paragraph_overwrites_pending_style
          [of "sampleDoc (Some [paragraphElem ''a'' newlineStyle 1 2,
                                paragraphElem ''b'' JNull 2 3, tableElem ''t'' 3 9])"
              "\<lparr>content = Some [paragraphElem ''a'' newlineStyle 1 2,
                                paragraphElem ''b'' JNull 2 3, tableElem ''t'' 3 9]\<rparr>"
              "paragraphElem ''a'' newlineStyle 1 2" "paragraphElem ''b'' JNull 2 3"
              "tableElem ''t'' 3 9" sampleCollaborators
              "JObj [(''pageSize'', JObj [(''height'', JNum 792), (''width'', JNum 612)])]"
              "JObj [(''margins'', JArr [JUndefined, JUndefined, JUndefined, JUndefined])]"
              "JObj [(''flipPageOrientation'', JBool True)]"
              "[JObj [(''insertText'', JStr ''a'')]]" newlineStyle
              "[JObj [(''insertText'', JStr ''b'')]]"
              "[JObj [(''insertTable'', JStr ''t'')]]"]
  by (simp add: sampleCollaborators_def sampleDoc_def sampleClassifier_def
      sampleParagraphHandler_def paragraphElem_def tableElem_def newlineStyle_def
      heightMagnitude_def widthMagnitude_def marginTopMagnitude_def
      marginBottomMagnitude_def marginRightMagnitude_def marginLeftMagnitude_def
      flipPageOrientationFlag_def optChain_def getProp_def nullish_def)

end
